theory Spec2Isabelle
  imports Complex_Main
begin

section \<open>JavaScript numbers\<close>

text \<open>
  A JavaScript Number is an IEEE 754 binary64 value. A finite one is kept as the rational
  number it denotes (\<open>Fin\<close>); the two zeros are identified, which no operation of
  \<^verbatim>\<open>server.js\<close> tells apart. \<open>fl x\<close> is the Number nearest to the rational \<open>x\<close>:
  53 significant bits, ties to the even significand, a subnormal quantum of \<open>2^-1074\<close>,
  and an infinity from \<open>2^1024\<close> on. A numeric literal of the source denotes \<open>fl\<close> of
  its decimal value, and \<^verbatim>\<open>*\<close> on finite operands is \<open>fl\<close> of the exact product.
\<close>

datatype jsnum = Fin rat | PInf | NInf | NaN

definition pow2 :: "int \<Rightarrow> rat" where
  "pow2 k = (if 0 \<le> k then 2 ^ nat k else 1 / 2 ^ nat (- k))"

text \<open>\<open>blen n\<close> is the number of binary digits of a positive \<open>n\<close>.\<close>

function blen :: "int \<Rightarrow> int" where
  "blen n = (if n \<le> 0 then 0 else 1 + blen (n div 2))"
  by pat_completeness auto
termination
  by (relation "measure nat") auto

declare blen.simps [simp del]

text \<open>\<open>ilog2 a\<close> is the binary exponent of a positive \<open>a\<close>: \<open>2^e \<le> a < 2^(e+1)\<close>.\<close>

definition ilog2 :: "rat \<Rightarrow> int" where
  "ilog2 a = (if 1 \<le> a then blen \<lfloor>a\<rfloor> - 1 else - blen (\<lceil>1 / a\<rceil> - 1))"

definition round_half_even :: "rat \<Rightarrow> int" where
  "round_half_even y =
     (let f = \<lfloor>y\<rfloor>; d = y - of_int f
      in if d < 1 / 2 then f else if 1 / 2 < d then f + 1
         else if even f then f else f + 1)"

definition fl :: "rat \<Rightarrow> jsnum" where
  "fl x =
     (if x = 0 then Fin 0
      else let a = \<bar>x\<bar>; e = ilog2 a; q = max (e - 52) (- 1074);
               v = of_int (round_half_even (a / pow2 q)) * pow2 q
           in if 1024 \<le> ilog2 v then (if 0 < x then PInf else NInf)
              else Fin (if 0 < x then v else - v))"

definition num_lit :: "rat \<Rightarrow> jsnum" where
  "num_lit d = fl d"

fun js_mul :: "jsnum \<Rightarrow> jsnum \<Rightarrow> jsnum" where
  "js_mul (Fin a) (Fin b) = fl (a * b)"
| "js_mul NaN _ = NaN"
| "js_mul _ NaN = NaN"
| "js_mul (Fin a) PInf = (if a = 0 then NaN else if 0 < a then PInf else NInf)"
| "js_mul (Fin a) NInf = (if a = 0 then NaN else if 0 < a then NInf else PInf)"
| "js_mul PInf (Fin b) = (if b = 0 then NaN else if 0 < b then PInf else NInf)"
| "js_mul NInf (Fin b) = (if b = 0 then NaN else if 0 < b then NInf else PInf)"
| "js_mul PInf PInf = PInf"
| "js_mul PInf NInf = NInf"
| "js_mul NInf PInf = NInf"
| "js_mul NInf NInf = PInf"

fun Math_floor :: "jsnum \<Rightarrow> jsnum" where
  "Math_floor (Fin a) = Fin (of_int \<lfloor>a\<rfloor>)"
| "Math_floor x = x"

text \<open>\<^verbatim>\<open>===\<close> on two Numbers: \<^verbatim>\<open>NaN\<close> equals nothing, itself included.\<close>

fun js_strict_eq :: "jsnum \<Rightarrow> jsnum \<Rightarrow> bool" where
  "js_strict_eq NaN _ = False"
| "js_strict_eq _ NaN = False"
| "js_strict_eq x y = (x = y)"

section \<open>Values read from JSON\<close>

text \<open>
  The value \<^verbatim>\<open>JSON.parse\<close> returns. An object is the association list of its
  members. \<^verbatim>\<open>undefined\<close> is \<open>None\<close> of \<open>json option\<close>.
\<close>

datatype json =
    JNull
  | JBool bool
  | JNum jsnum
  | JStr string
  | JArr "json list"
  | JObj "(string \<times> json) list"

text \<open>
  \<^verbatim>\<open>result.approved\<close> and \<^verbatim>\<open>result.reason\<close> on a value that is not
  \<^verbatim>\<open>null\<close>: a member of an object, \<^verbatim>\<open>undefined\<close> on an object without it and on a
  boolean, a number, a string or an array (none has a property of either name).
\<close>

fun member :: "json \<Rightarrow> string \<Rightarrow> json option" where
  "member (JObj kvs) k = map_of kvs k"
| "member _ k = None"

text \<open>The truthiness of a value, as \<^verbatim>\<open>&&\<close>, \<^verbatim>\<open>? :\<close> and \<^verbatim>\<open>!\<close> see it.\<close>

fun truthy :: "json option \<Rightarrow> bool" where
  "truthy None = False"
| "truthy (Some JNull) = False"
| "truthy (Some (JBool b)) = b"
| "truthy (Some (JNum n)) = (n \<noteq> Fin 0 \<and> n \<noteq> NaN)"
| "truthy (Some (JStr s)) = (s \<noteq> [])"
| "truthy (Some (JArr _)) = True"
| "truthy (Some (JObj _)) = True"

section \<open>The jobs\<close>

record job =
  job_id :: jsnum
  title :: string
  description :: string
  reward :: jsnum
  difficulty :: string
  timeEstimate :: string
  verificationPrompt :: string

definition job1 :: job where
  "job1 = \<lparr>job_id = num_lit 1,
     title = ''Create a meme about AI taking over jobs'',
     description = ''Make a funny meme about AI replacing human workers. Must be original, funny, and shareable.'',
     reward = num_lit (5 / 100),
     difficulty = ''Easy'',
     timeEstimate = ''10 min'',
     verificationPrompt = ''Is this a funny, original meme about AI taking over jobs or replacing workers?''\<rparr>"

definition job2 :: job where
  "job2 = \<lparr>job_id = num_lit 2,
     title = ''Write a tweet thread about $JOBAI'',
     description = ''Write a 3-5 tweet thread explaining what JobAI is and why it matters. Screenshot your posted tweets.'',
     reward = num_lit (8 / 100),
     difficulty = ''Easy'',
     timeEstimate = ''15 min'',
     verificationPrompt = ''Does this show a tweet thread (3-5 tweets) about JobAI explaining what it is?''\<rparr>"

definition job3 :: job where
  "job3 = \<lparr>job_id = num_lit 3,
     title = ''Design a $JOBAI logo concept'',
     description = ''Create a simple logo concept for JobAI. Should be minimal, tech-focused, and work in green/black.'',
     reward = num_lit (15 / 100),
     difficulty = ''Medium'',
     timeEstimate = ''30 min'',
     verificationPrompt = ''Is this a logo design for JobAI? Is it minimal and tech-focused with green/black colors?''\<rparr>"

definition jobs :: "job list" where
  "jobs = [job1, job2, job3]"

subsection \<open>\<^verbatim>\<open>GET /api/jobs\<close>\<close>

text \<open>
  The handler maps every job to a new object literal; an object is the list of its keys
  and values in the order the literal writes them.
\<close>

definition public_job :: "job \<Rightarrow> (string \<times> json) list" where
  "public_job j =
     [(''id'', JNum (job_id j)),
      (''title'', JStr (title j)),
      (''description'', JStr (description j)),
      (''reward'', JNum (reward j)),
      (''difficulty'', JStr (difficulty j)),
      (''timeEstimate'', JStr (timeEstimate j))]"

definition get_api_jobs :: "job list \<Rightarrow> (string \<times> json) list list" where
  "get_api_jobs js = map public_job js"

section \<open>The amount of a payout\<close>

text \<open>
  Modelled from the spec: \<^verbatim>\<open>LAMPORTS_PER_SOL\<close> is imported from the chain client
  library and is not part of the source; it is the 9-decimal subdivision factor, \<open>1e9\<close>.
\<close>

definition LAMPORTS_PER_SOL :: jsnum where
  "LAMPORTS_PER_SOL = num_lit 1000000000"

text \<open>\<^verbatim>\<open>Math.floor(job.reward * LAMPORTS_PER_SOL)\<close>\<close>

definition lamports_of :: "jsnum \<Rightarrow> jsnum" where
  "lamports_of r = Math_floor (js_mul r LAMPORTS_PER_SOL)"

section \<open>\<^verbatim>\<open>parseInt\<close> and the lookup of a job\<close>

text \<open>
  \<^verbatim>\<open>parseInt(jobId)\<close> with no radix: leading white space is dropped, then one sign,
  then \<^verbatim>\<open>0x\<close> or \<^verbatim>\<open>0X\<close> selects radix 16 (radix 10 otherwise); the digits of that
  radix up to the first other character are read; no digit gives \<^verbatim>\<open>NaN\<close>. A string is
  a list of 8-bit characters here, so the white space is the ASCII one (tab, line feed,
  vertical tab, form feed, carriage return, space).
\<close>

definition is_ws :: "char \<Rightarrow> bool" where
  "is_ws c = (of_char c \<in> {9, 10, 11, 12, 13, 32 :: nat})"

definition digit_of :: "char \<Rightarrow> nat option" where
  "digit_of c =
     (let n = (of_char c :: nat)
      in if 48 \<le> n \<and> n \<le> 57 then Some (n - 48)
         else if 97 \<le> n \<and> n \<le> 122 then Some (n - 87)
         else if 65 \<le> n \<and> n \<le> 90 then Some (n - 55)
         else None)"

definition is_radix_digit :: "nat \<Rightarrow> char \<Rightarrow> bool" where
  "is_radix_digit R c = (case digit_of c of Some d \<Rightarrow> d < R | None \<Rightarrow> False)"

definition digits_value :: "nat \<Rightarrow> string \<Rightarrow> nat" where
  "digits_value R Z =
     foldl (\<lambda>a c. case digit_of c of Some d \<Rightarrow> a * R + d | None \<Rightarrow> a) 0 Z"

fun strip_sign :: "string \<Rightarrow> rat \<times> string" where
  "strip_sign [] = (1, [])"
| "strip_sign (c # cs) =
     (if c = CHR ''-'' then (- 1, cs) else if c = CHR ''+'' then (1, cs) else (1, c # cs))"

fun strip_prefix :: "string \<Rightarrow> nat \<times> string" where
  "strip_prefix (c # x # cs) =
     (if c = CHR ''0'' \<and> (x = CHR ''x'' \<or> x = CHR ''X'') then (16, cs) else (10, c # x # cs))"
| "strip_prefix cs = (10, cs)"

definition parseInt :: "string \<Rightarrow> jsnum" where
  "parseInt inputString =
     (let (sign, S) = strip_sign (dropWhile is_ws inputString);
          (R, S') = strip_prefix S;
          Z = takeWhile (is_radix_digit R) S'
      in if Z = [] then NaN else fl (sign * of_nat (digits_value R Z)))"

text \<open>\<^verbatim>\<open>jobs.find(j => j.id === parseInt(jobId))\<close>\<close>

definition find_job :: "string \<Rightarrow> job option" where
  "find_job jobId = List.find (\<lambda>j. js_strict_eq (job_id j) (parseInt jobId)) jobs"

section \<open>\<^verbatim>\<open>POST /api/submit\<close>\<close>

text \<open>
  The request, as the multipart parser hands it over: each text field is a string or
  absent (\<open>None\<close>), and \<^verbatim>\<open>req.file\<close> is the uploaded image or absent.
\<close>

record uploaded_file =
  buffer :: "nat list"
  mimetype :: string

record request =
  jobId :: "string option"
  wallet :: "string option"
  proofText :: "string option"
  imageFile :: "uploaded_file option"

text \<open>
  What the judgment backend does when it is called: the call (or reading
  \<^verbatim>\<open>response.choices[0].message.content\<close>) throws, or \<^verbatim>\<open>JSON.parse\<close> throws on
  the content, or \<^verbatim>\<open>JSON.parse\<close> returns a value.
\<close>

datatype judge_reply = Call_fails | Content_invalid | Content_json json

record transfer =
  fromPubkey :: string
  toPubkey :: string
  lamports :: jsnum

text \<open>
  The configuration of the process and the outside world of one request:
  \<open>openai\<close> is the client (\<open>None\<close> without an API key) as a function from the user text
  and the image to its reply; \<open>poolKeypair\<close> is the pool wallet, given by its public key
  (\<open>None\<close> when none was loaded); \<open>publicKey_valid\<close> says whether
  \<^verbatim>\<open>new PublicKey(wallet)\<close> returns; \<open>sendTransaction\<close> is the signature the RPC node
  answers with, \<open>None\<close> when the call throws; \<open>confirmTransaction\<close> says whether the
  confirmation returns.
\<close>

record env =
  openai :: "(string \<Rightarrow> uploaded_file \<Rightarrow> judge_reply) option"
  poolKeypair :: "string option"
  publicKey_valid :: "string \<Rightarrow> bool"
  sendTransaction :: "transfer \<Rightarrow> string option"
  confirmTransaction :: "string \<Rightarrow> bool"

text \<open>What a request does besides answering, in the order it does it.\<close>

datatype event =
    Task_lookup string
  | Judge_call string uploaded_file
  | PublicKey_new string
  | Transfer_build transfer
  | Send_transaction transfer
  | Confirm_transaction string
  | Log_payment_sent string
  | Log_payment_failed

fun is_judge_call :: "event \<Rightarrow> bool" where
  "is_judge_call (Judge_call _ _) = True"
| "is_judge_call _ = False"

fun is_chain_call :: "event \<Rightarrow> bool" where
  "is_chain_call (PublicKey_new _) = True"
| "is_chain_call (Transfer_build _) = True"
| "is_chain_call (Send_transaction _) = True"
| "is_chain_call (Confirm_transaction _) = True"
| "is_chain_call _ = False"

record submit_result =
  res_success :: bool
  res_approved :: "json option"
  res_reason :: "json option"
  res_reward :: jsnum
  res_txSignature :: "string option"

text \<open>
  \<open>Error_response status error\<close> is \<^verbatim>\<open>res.status(status).json({ error })\<close>;
  \<open>Submit_response\<close> is the \<^verbatim>\<open>res.json\<close> of the last statement, status 200.
\<close>

datatype response = Error_response nat string | Submit_response submit_result

text \<open>\<^verbatim>\<open>!v\<close> on a text field: absent or the empty string.\<close>

definition falsy :: "string option \<Rightarrow> bool" where
  "falsy v = (case v of None \<Rightarrow> True | Some s \<Rightarrow> s = [])"

text \<open>\<^verbatim>\<open>proofText || 'none'\<close>\<close>

definition or_none :: "string option \<Rightarrow> string" where
  "or_none v = (case v of None \<Rightarrow> ''none'' | Some s \<Rightarrow> if s = [] then ''none'' else s)"

definition user_text :: "job \<Rightarrow> string option \<Rightarrow> string" where
  "user_text j pt =
     ''Task: '' @ title j @ ''\<newline>Description: '' @ description j @
     ''\<newline>Verification question: '' @ verificationPrompt j @
     ''\<newline>\<newline>Additional info from worker: '' @ or_none pt @
     ''\<newline>\<newline>Did they complete this task?''"

text \<open>
  The verification branch: \<open>Inl ()\<close> when a statement of it throws (the outer
  \<^verbatim>\<open>catch\<close> takes over), otherwise the values left in \<^verbatim>\<open>approved\<close> and
  \<^verbatim>\<open>reason\<close>. The image goes to the backend as a data URL of its bytes and media type.
\<close>

definition verify :: "env \<Rightarrow> job \<Rightarrow> request \<Rightarrow> (unit + json option \<times> json option) \<times> event list" where
  "verify e j req =
     (case (openai e, imageFile req) of
        (Some client, Some img) \<Rightarrow>
          (let text = user_text j (proofText req)
           in (case client text img of
                 Call_fails \<Rightarrow> Inl ()
               | Content_invalid \<Rightarrow> Inl ()
               | Content_json JNull \<Rightarrow> Inl ()
               | Content_json result \<Rightarrow> Inr (member result ''approved'', member result ''reason''),
               [Judge_call text img]))
      | _ \<Rightarrow> (Inr (Some (JBool True), Some (JStr ''Auto-approved (demo mode)'')), []))"

text \<open>
  The body of the inner \<^verbatim>\<open>try\<close>, with its \<^verbatim>\<open>catch\<close>: the value left in
  \<^verbatim>\<open>txSignature\<close>, which is assigned when \<^verbatim>\<open>sendTransaction\<close> returns and is not
  touched again. The statements that can throw are \<^verbatim>\<open>new PublicKey(wallet)\<close>,
  \<^verbatim>\<open>sendTransaction\<close> and \<^verbatim>\<open>confirmTransaction\<close>; building the transfer does not
  throw on the integer amounts of the catalogue.
\<close>

definition pay :: "env \<Rightarrow> string \<Rightarrow> job \<Rightarrow> string \<Rightarrow> string option \<times> event list" where
  "pay e pool j w =
     (if \<not> publicKey_valid e w then (None, [PublicKey_new w, Log_payment_failed])
      else let tr = \<lparr>fromPubkey = pool, toPubkey = w, lamports = lamports_of (reward j)\<rparr>
           in (case sendTransaction e tr of
                 None \<Rightarrow>
                   (None, [PublicKey_new w, Transfer_build tr, Send_transaction tr,
                           Log_payment_failed])
               | Some sig \<Rightarrow>
                   if confirmTransaction e sig
                   then (Some sig, [PublicKey_new w, Transfer_build tr, Send_transaction tr,
                                    Confirm_transaction sig, Log_payment_sent sig])
                   else (Some sig, [PublicKey_new w, Transfer_build tr, Send_transaction tr,
                                    Confirm_transaction sig, Log_payment_failed])))"

definition payout :: "env \<Rightarrow> json option \<Rightarrow> job \<Rightarrow> string \<Rightarrow> string option \<times> event list" where
  "payout e approved j w =
     (case poolKeypair e of
        Some pool \<Rightarrow> if truthy approved then pay e pool j w else (None, [])
      | None \<Rightarrow> (None, []))"

definition process :: "env \<Rightarrow> string \<Rightarrow> string \<Rightarrow> request \<Rightarrow> response \<times> event list" where
  "process e jid w req =
     (case find_job jid of
        None \<Rightarrow> (Error_response 404 ''Job not found'', [Task_lookup jid])
      | Some j \<Rightarrow>
          (case verify e j req of
             (Inl _, t1) \<Rightarrow>
               (Error_response 500 ''Failed to process submission'', Task_lookup jid # t1)
           | (Inr (approved, reason), t1) \<Rightarrow>
               (let (txSignature, t2) = payout e approved j w
                in (Submit_response
                      \<lparr>res_success = True,
                       res_approved = approved,
                       res_reason = reason,
                       res_reward = (if truthy approved then reward j else num_lit 0),
                       res_txSignature = txSignature\<rparr>,
                    Task_lookup jid # t1 @ t2))))"

definition submit :: "env \<Rightarrow> request \<Rightarrow> response \<times> event list" where
  "submit e req =
     (if falsy (jobId req) \<or> falsy (wallet req)
      then (Error_response 400 ''Missing required fields'', [])
      else (case (jobId req, wallet req) of
              (Some jid, Some w) \<Rightarrow> process e jid w req
            | _ \<Rightarrow> (Error_response 400 ''Missing required fields'', [])))"

section \<open>Example requests and configurations\<close>


definition req_w1 :: request where
  "req_w1 = \<lparr>jobId = Some ''1'', wallet = Some ''W1'', proofText = None, imageFile = None\<rparr>"


definition req_no_wallet :: request where
  "req_no_wallet = \<lparr>jobId = Some ''1'', wallet = Some [], proofText = None, imageFile = None\<rparr>"

definition req_job99 :: request where
  "req_job99 = \<lparr>jobId = Some ''99'', wallet = Some ''W1'', proofText = None, imageFile = None\<rparr>"



text \<open>Nothing configured: no API key, no pool wallet.\<close>

definition env_demo :: env where
  "env_demo = \<lparr>openai = None, poolKeypair = None, publicKey_valid = (\<lambda>w. True),
     sendTransaction = (\<lambda>tr. None), confirmTransaction = (\<lambda>sig. False)\<rparr>"

text \<open>
  A pool wallet, no API key; the RPC node accepts the transaction with the signature
  \<open>sig1\<close> and the confirmation of it throws.
\<close>

definition env_confirm_throws :: env where
  "env_confirm_throws = \<lparr>openai = None, poolKeypair = Some ''Pool'',
     publicKey_valid = (\<lambda>w. True), sendTransaction = (\<lambda>tr. Some ''sig1''),
     confirmTransaction = (\<lambda>sig. False)\<rparr>"

definition transfer_w1 :: transfer where
  "transfer_w1 = \<lparr>fromPubkey = ''Pool'', toPubkey = ''W1'', lamports = Fin 50000000\<rparr>"





section \<open>Facts about the numbers of the catalogue\<close>



lemma lamports_1: "lamports_of (num_lit (5 / 100)) = Fin 50000000"
  by code_simp




text \<open>
  The conversion is exact on the rewards of the catalogue, not on every decimal: the
  floating-point product of \<open>1.001\<close> and \<open>1e9\<close> lies below \<open>1001000000\<close>.
\<close>

lemma lamports_drift: "lamports_of (num_lit (1001 / 1000)) = Fin 1000999999"
  by code_simp

section \<open>Facts about the lookup\<close>

lemma find_job_1: "find_job ''1'' = Some job1"
  by code_simp

lemma find_job_99: "find_job ''99'' = None"
  by code_simp


















section \<open>Facts about the stages of a submission\<close>

lemma intake_ok:
  assumes "jobId req = Some jid" "jid \<noteq> []" "wallet req = Some w" "w \<noteq> []"
  shows "submit e req = process e jid w req"
  using assms by (simp add: submit_def falsy_def)

lemma process_accepts:
  assumes "find_job jid = Some j" and "verify e j req = (Inr (a, r), t1)"
  shows "process e jid w req =
    (Submit_response \<lparr>res_success = True, res_approved = a, res_reason = r,
       res_reward = (if truthy a then reward j else Fin 0),
       res_txSignature = fst (payout e a j w)\<rparr>,
     Task_lookup jid # t1 @ snd (payout e a j w))"
  using assms by (simp add: process_def case_prod_beta num_lit_def fl_def)

lemma process_throws:
  assumes "find_job jid = Some j" and "verify e j req = (Inl u, t1)"
  shows "process e jid w req =
    (Error_response 500 ''Failed to process submission'', Task_lookup jid # t1)"
  using assms by (simp add: process_def)


lemma verify_no_backend:
  "openai e = None \<Longrightarrow>
     verify e j req = (Inr (Some (JBool True), Some (JStr ''Auto-approved (demo mode)'')), [])"
  by (simp add: verify_def)


lemma payout_no_judge_call: "filter is_judge_call (snd (payout e a j w)) = []"
  by (simp add: payout_def pay_def Let_def split: option.splits)

subsection \<open>The example requests\<close>

lemma payout_demo: "payout env_demo a j w = (None, [])"
  by (simp add: payout_def env_demo_def)




lemma lamports_job1: "lamports_of (reward job1) = Fin 50000000"
  by (simp only: job1_def job.simps lamports_1)

lemma pay_confirm_throws:
  "pay env_confirm_throws ''Pool'' job1 ''W1'' =
     (Some ''sig1'', [PublicKey_new ''W1'', Transfer_build transfer_w1,
        Send_transaction transfer_w1, Confirm_transaction ''sig1'', Log_payment_failed])"
  by (simp add: pay_def Let_def env_confirm_throws_def transfer_w1_def lamports_job1)

lemma submit_demo:
  "submit env_demo req_w1 =
     (Submit_response \<lparr>res_success = True, res_approved = Some (JBool True),
        res_reason = Some (JStr ''Auto-approved (demo mode)''), res_reward = reward job1,
        res_txSignature = None\<rparr>, [Task_lookup ''1''])"
proof -
  have i: "submit env_demo req_w1 = process env_demo ''1'' ''W1'' req_w1"
    by (rule intake_ok) (simp_all add: req_w1_def)
  have v: "verify env_demo job1 req_w1 =
      (Inr (Some (JBool True), Some (JStr ''Auto-approved (demo mode)'')), [])"
    by (rule verify_no_backend) (simp add: env_demo_def)
  show ?thesis
    by (simp add: i process_accepts [OF find_job_1 v] payout_demo)
qed

lemma submit_confirm_throws:
  "submit env_confirm_throws req_w1 =
     (Submit_response \<lparr>res_success = True, res_approved = Some (JBool True),
        res_reason = Some (JStr ''Auto-approved (demo mode)''), res_reward = reward job1,
        res_txSignature = Some ''sig1''\<rparr>,
      [Task_lookup ''1'', PublicKey_new ''W1'', Transfer_build transfer_w1,
       Send_transaction transfer_w1, Confirm_transaction ''sig1'', Log_payment_failed])"
proof -
  have i: "submit env_confirm_throws req_w1 = process env_confirm_throws ''1'' ''W1'' req_w1"
    by (rule intake_ok) (simp_all add: req_w1_def)
  have v: "verify env_confirm_throws job1 req_w1 =
      (Inr (Some (JBool True), Some (JStr ''Auto-approved (demo mode)'')), [])"
    by (rule verify_no_backend) (simp add: env_confirm_throws_def)
  have p: "payout env_confirm_throws (Some (JBool True)) job1 ''W1'' =
      pay env_confirm_throws ''Pool'' job1 ''W1''"
    by (simp add: payout_def env_confirm_throws_def)
  show ?thesis
    by (simp add: i process_accepts [OF find_job_1 v] p pay_confirm_throws)
qed



section \<open>Intake and task lookup\<close>

text \<open>
  C6. A submission whose task identifier or wallet field is missing or empty is answered
  with status 400 and the error \<open>Missing required fields\<close>, and nothing has been done
  before: no task lookup, no call of the judgment backend, no step of the payout.
\<close>

theorem missing_field_bad_request:
  "jobId req = None \<or> jobId req = Some [] \<or> wallet req = None \<or> wallet req = Some [] \<Longrightarrow>
     submit e req = (Error_response 400 ''Missing required fields'', [])"
  by (auto simp: submit_def falsy_def)

text \<open>An instance: task 1 with the empty string for the wallet.\<close>

theorem missing_field_bad_request_witness:
  "(jobId req_no_wallet = None \<or> jobId req_no_wallet = Some [] \<or>
    wallet req_no_wallet = None \<or> wallet req_no_wallet = Some []) \<and>
   submit env_demo req_no_wallet = (Error_response 400 ''Missing required fields'', [])"
proof -
  have h: "jobId req_no_wallet = None \<or> jobId req_no_wallet = Some [] \<or>
      wallet req_no_wallet = None \<or> wallet req_no_wallet = Some []"
    by (simp add: req_no_wallet_def)
  from missing_field_bad_request [OF h, of env_demo] h show ?thesis by simp
qed

text \<open>
  C7. A submission that passes the intake and whose task identifier resolves to no job is
  answered with status 404 and the error \<open>Job not found\<close>; the lookup is all that has
  happened: neither the judgment backend nor the payout was reached.
\<close>

theorem unknown_task_not_found:
  assumes "jobId req = Some jid" "jid \<noteq> []" "wallet req = Some w" "w \<noteq> []"
    and "find_job jid = None"
  shows "submit e req = (Error_response 404 ''Job not found'', [Task_lookup jid])"
  using assms by (simp add: intake_ok process_def)

text \<open>An instance: the task identifier 99.\<close>

theorem unknown_task_not_found_witness:
  "jobId req_job99 = Some ''99'' \<and> ''99'' \<noteq> [] \<and> wallet req_job99 = Some ''W1'' \<and>
   ''W1'' \<noteq> [] \<and> find_job ''99'' = None \<and>
   submit env_demo req_job99 = (Error_response 404 ''Job not found'', [Task_lookup ''99''])"
proof -
  have h: "jobId req_job99 = Some ''99''" "''99'' \<noteq> []" "wallet req_job99 = Some ''W1''"
      "''W1'' \<noteq> []"
    by (simp_all add: req_job99_def)
  from unknown_task_not_found [OF h find_job_99, of env_demo] h find_job_99 show ?thesis
    by simp
qed



section \<open>Verification\<close>

text \<open>
  C2. For a submission that passes the intake and resolves to a job: when no judgment
  backend is configured or no image is supplied, the backend is not called, and the
  response reports the approval with the fixed rationale \<open>Auto-approved (demo mode)\<close> and
  the reward of the job, whatever the proof text and the image are.
\<close>

theorem fallback_auto_approve:
  assumes "jobId req = Some jid" "jid \<noteq> []" "wallet req = Some w" "w \<noteq> []"
    and "find_job jid = Some j"
    and "openai e = None \<or> imageFile req = None"
  shows "fst (submit e req) =
      Submit_response \<lparr>res_success = True, res_approved = Some (JBool True),
        res_reason = Some (JStr ''Auto-approved (demo mode)''), res_reward = reward j,
        res_txSignature = fst (payout e (Some (JBool True)) j w)\<rparr> \<and>
    filter is_judge_call (snd (submit e req)) = []"
proof -
  have v: "verify e j req =
      (Inr (Some (JBool True), Some (JStr ''Auto-approved (demo mode)'')), [])"
    using assms(6) by (auto simp: verify_def split: option.splits)
  show ?thesis
    using assms(1-4)
    by (simp add: intake_ok process_accepts [OF assms(5) v] payout_no_judge_call)
qed

text \<open>An instance: task 1, no image, nothing configured.\<close>

theorem fallback_auto_approve_witness:
  "jobId req_w1 = Some ''1'' \<and> ''1'' \<noteq> [] \<and> wallet req_w1 = Some ''W1'' \<and> ''W1'' \<noteq> [] \<and>
   find_job ''1'' = Some job1 \<and> (openai env_demo = None \<or> imageFile req_w1 = None) \<and>
   fst (submit env_demo req_w1) =
      Submit_response \<lparr>res_success = True, res_approved = Some (JBool True),
        res_reason = Some (JStr ''Auto-approved (demo mode)''), res_reward = reward job1,
        res_txSignature = None\<rparr> \<and>
   filter is_judge_call (snd (submit env_demo req_w1)) = []"
proof -
  have h: "jobId req_w1 = Some ''1''" "''1'' \<noteq> []" "wallet req_w1 = Some ''W1''" "''W1'' \<noteq> []"
    by (simp_all add: req_w1_def)
  have o: "openai env_demo = None \<or> imageFile req_w1 = None"
    by (simp add: env_demo_def)
  from fallback_auto_approve [OF h find_job_1 o] h find_job_1 o show ?thesis
    by (simp add: payout_demo)
qed




section \<open>Payout and response\<close>

text \<open>
  C3. In every response assembled for a submission, the reported reward is the reward of
  the resolved job when the reported verdict is an approval (a truthy \<^verbatim>\<open>approved\<close>) and
  0 when it is not, whatever the configuration of the pool and the outcome of the chain
  calls are.
\<close>

theorem reward_reporting:
  assumes "fst (submit e req) = Submit_response r"
    and "jobId req = Some jid" and "find_job jid = Some j"
  shows "res_reward r = (if truthy (res_approved r) then reward j else Fin 0)"
proof -
  from assms(1) have nf: "\<not> (falsy (jobId req) \<or> falsy (wallet req))"
    by (auto simp: submit_def)
  then obtain w where w: "wallet req = Some w" "w \<noteq> []" and jid: "jid \<noteq> []"
    using assms(2) by (auto simp: falsy_def split: option.splits)
  have s: "submit e req = process e jid w req"
    using assms(2) jid w by (rule intake_ok)
  obtain x t1 where v: "verify e j req = (x, t1)"
    by (cases "verify e j req")
  show ?thesis
  proof (cases x)
    case (Inl u)
    with assms(1) s v assms(3) show ?thesis
      by (simp add: process_throws)
  next
    case (Inr ar)
    obtain a rs where ar: "ar = (a, rs)" by (cases ar)
    from assms(1) s process_accepts [OF assms(3) v [unfolded Inr ar]] show ?thesis
      by auto
  qed
qed

text \<open>
  An instance: an approved submission for task 1 whose payout fails at the confirmation
  reports the reward of task 1.
\<close>

theorem reward_reporting_witness:
  "fst (submit env_confirm_throws req_w1) =
      Submit_response \<lparr>res_success = True, res_approved = Some (JBool True),
        res_reason = Some (JStr ''Auto-approved (demo mode)''), res_reward = reward job1,
        res_txSignature = Some ''sig1''\<rparr> \<and>
   jobId req_w1 = Some ''1'' \<and> find_job ''1'' = Some job1 \<and>
   res_reward \<lparr>res_success = True, res_approved = Some (JBool True),
        res_reason = Some (JStr ''Auto-approved (demo mode)''), res_reward = reward job1,
        res_txSignature = Some ''sig1''\<rparr> = reward job1"
proof -
  have a: "fst (submit env_confirm_throws req_w1) =
      Submit_response \<lparr>res_success = True, res_approved = Some (JBool True),
        res_reason = Some (JStr ''Auto-approved (demo mode)''), res_reward = reward job1,
        res_txSignature = Some ''sig1''\<rparr>"
    by (simp add: submit_confirm_throws)
  have b: "jobId req_w1 = Some ''1''"
    by (simp add: req_w1_def)
  from reward_reporting [OF a b find_job_1] a b find_job_1 show ?thesis by simp
qed

text \<open>
  C8. While no pool wallet is configured, a response to a submission (an approved one
  included) has \<^verbatim>\<open>txSignature\<close> \<^verbatim>\<open>null\<close>, and the request makes no step of the payout:
  no address is parsed, no transfer built, sent or confirmed.
\<close>

theorem no_pool_no_chain_call:
  assumes "poolKeypair e = None"
  shows "(\<forall>r. fst (submit e req) = Submit_response r \<longrightarrow> res_txSignature r = None) \<and>
    filter is_chain_call (snd (submit e req)) = []"
proof -
  have p: "payout e a j w = (None, [])" for a j w
    using assms by (simp add: payout_def)
  have v: "filter is_chain_call (snd (verify e j req)) = []" for j
    by (simp add: verify_def Let_def split: option.splits)
  have "(\<forall>r. fst (process e jid w req) = Submit_response r \<longrightarrow> res_txSignature r = None) \<and>
    filter is_chain_call (snd (process e jid w req)) = []" for jid w
    using v by (auto simp: process_def p case_prod_beta split: option.splits sum.splits prod.splits)
  then show ?thesis
    by (auto simp: submit_def split: option.splits)
qed

text \<open>An instance: the approved submission for task 1 with nothing configured.\<close>

theorem no_pool_no_chain_call_witness:
  "poolKeypair env_demo = None \<and>
   fst (submit env_demo req_w1) =
     Submit_response \<lparr>res_success = True, res_approved = Some (JBool True),
        res_reason = Some (JStr ''Auto-approved (demo mode)''), res_reward = reward job1,
        res_txSignature = None\<rparr> \<and>
   res_txSignature \<lparr>res_success = True, res_approved = Some (JBool True),
        res_reason = Some (JStr ''Auto-approved (demo mode)''), res_reward = reward job1,
        res_txSignature = None\<rparr> = None \<and>
   filter is_chain_call (snd (submit env_demo req_w1)) = []"
proof -
  have h: "poolKeypair env_demo = None"
    by (simp add: env_demo_def)
  from no_pool_no_chain_call [OF h, of req_w1] h show ?thesis
    by (simp add: submit_demo)
qed

text \<open>
  Whenever an approved submission reaches \<^verbatim>\<open>sendTransaction\<close> and the call returns a
  signature, the response carries that signature, whether the confirmation returns or
  throws.
\<close>

lemma txSignature_after_send:
  assumes "jobId req = Some jid" "jid \<noteq> []" "wallet req = Some w" "w \<noteq> []"
    and "find_job jid = Some j"
    and "fst (submit e req) = Submit_response r" and "truthy (res_approved r)"
    and "poolKeypair e = Some pool" and "publicKey_valid e w"
    and "sendTransaction e
      \<lparr>fromPubkey = pool, toPubkey = w, lamports = lamports_of (reward j)\<rparr> = Some sig"
  shows "res_txSignature r = Some sig \<and> res_reward r = reward j"
proof -
  have s: "submit e req = process e jid w req"
    using assms(1-4) by (rule intake_ok)
  obtain x t1 where v: "verify e j req = (x, t1)"
    by (cases "verify e j req")
  show ?thesis
  proof (cases x)
    case (Inl u)
    with assms(6) s v assms(5) show ?thesis
      by (simp add: process_throws)
  next
    case (Inr ar)
    obtain a rs where ar: "ar = (a, rs)" by (cases ar)
    from assms(6) s process_accepts [OF assms(5) v [unfolded Inr ar]]
    have r: "r = \<lparr>res_success = True, res_approved = a, res_reason = rs,
       res_reward = (if truthy a then reward j else Fin 0),
       res_txSignature = fst (payout e a j w)\<rparr>"
      by simp
    with assms(7) have a: "truthy a" by simp
    with assms(8-10) have "fst (payout e a j w) = Some sig"
      by (simp add: payout_def pay_def Let_def)
    with r a show ?thesis by simp
  qed
qed


section \<open>The payout amount\<close>


section \<open>The public listing\<close>

text \<open>
  C9. The listing has one object for every job of the catalogue, in the order of the
  catalogue. The keys of that object are \<open>id\<close>, \<open>title\<close>, \<open>description\<close>, \<open>reward\<close>,
  \<open>difficulty\<close> and \<open>timeEstimate\<close>, with the values the job has for them; the key
  \<open>verificationPrompt\<close> of the judgment question is not among them.
\<close>

theorem listing_omits_prompt:
  "length (get_api_jobs js) = length js \<and>
   (\<forall>i < length js.
      map fst (get_api_jobs js ! i) =
        [''id'', ''title'', ''description'', ''reward'', ''difficulty'', ''timeEstimate''] \<and>
      map snd (get_api_jobs js ! i) =
        [JNum (job_id (js ! i)), JStr (title (js ! i)), JStr (description (js ! i)),
         JNum (reward (js ! i)), JStr (difficulty (js ! i)), JStr (timeEstimate (js ! i))] \<and>
      ''verificationPrompt'' \<notin> fst ` set (get_api_jobs js ! i))"
  by (simp add: get_api_jobs_def public_job_def)

text \<open>An instance: the first object of the listing of the catalogue.\<close>

theorem listing_omits_prompt_witness:
  "length (get_api_jobs jobs) = 3 \<and> (0::nat) < length jobs \<and>
   map fst (get_api_jobs jobs ! 0) =
     [''id'', ''title'', ''description'', ''reward'', ''difficulty'', ''timeEstimate''] \<and>
   ''verificationPrompt'' \<notin> fst ` set (get_api_jobs jobs ! 0)"
proof -
  have h: "(0::nat) < length jobs"
    by (simp add: jobs_def)
  have l: "length jobs = 3"
    by (simp add: jobs_def)
  from listing_omits_prompt [of jobs] h l show ?thesis
    by simp
qed

end
